theory Spec2Isabelle
  imports Complex_Main "HOL-Library.List_Lexorder" "HOL-Library.Product_Lexorder"
begin

section \<open>Runtime values\<close>

text \<open>
  The functions of \<^verbatim>\<open>src/index.js\<close> inspect arbitrary JavaScript values. A value is
  modelled by what the functions can observe of it:
  \<^item> a number is \<open>NaN\<close>, one of the two infinities or a finite number (the two zeros are
    one value: \<^verbatim>\<open>===\<close> does not tell them apart);
  \<^item> a symbol is a primitive with an identity;
  \<^item> an array is a reference together with its elements, a dense list of values; a hole
    of a sparse array, an array that contains itself and a proxy are not values of the
    model;
  \<^item> any other object is a reference, the flag that says whether it is callable (what
    \<^verbatim>\<open>typeof\<close> reports) and the built-in prototypes on its prototype chain (what
    \<^verbatim>\<open>instanceof\<close> walks). The flag and the chain are independent, as they are in
    the language: \<^verbatim>\<open>Object.create(Date.prototype)\<close> and a function whose prototype was
    set to \<^verbatim>\<open>null\<close> are values too.
\<close>

datatype number = NaN | PosInf | NegInf | Finite rat

datatype proto =
    FunctionProto | DateProto | RegExpProto | SetProto | MapProto | WeakSetProto
  | WeakMapProto | PromiseProto | ArrayProto | StringProto | NumberProto | BooleanProto
  | BigIntProto | SymbolProto | ObjectProto

datatype val =
    Undefined
  | Null
  | Bool bool
  | Num number
  | Str string
  | BigInt int
  | Symbol nat
  | Arr nat "val list"
  | Obj nat bool "proto list"

text \<open>The operator \<^verbatim>\<open>typeof\<close>.\<close>

fun typeof :: "val \<Rightarrow> string" where
  "typeof Undefined = ''undefined''"
| "typeof Null = ''object''"
| "typeof (Bool b) = ''boolean''"
| "typeof (Num n) = ''number''"
| "typeof (Str s) = ''string''"
| "typeof (BigInt i) = ''bigint''"
| "typeof (Symbol i) = ''symbol''"
| "typeof (Arr r xs) = ''object''"
| "typeof (Obj r callable chain) = (if callable then ''function'' else ''object'')"

text \<open>
  Strict equality \<^verbatim>\<open>a === b\<close>: no coercion; \<open>NaN\<close> differs from every number, itself
  included; objects and arrays are compared by reference, symbols by identity.
\<close>

definition strictEq :: "val \<Rightarrow> val \<Rightarrow> bool" where
  "strictEq a b =
    (case a of
       Undefined \<Rightarrow> (case b of Undefined \<Rightarrow> True | _ \<Rightarrow> False)
     | Null \<Rightarrow> (case b of Null \<Rightarrow> True | _ \<Rightarrow> False)
     | Bool x \<Rightarrow> (case b of Bool y \<Rightarrow> x = y | _ \<Rightarrow> False)
     | Num x \<Rightarrow> (case b of Num y \<Rightarrow> x \<noteq> NaN \<and> y \<noteq> NaN \<and> x = y | _ \<Rightarrow> False)
     | Str x \<Rightarrow> (case b of Str y \<Rightarrow> x = y | _ \<Rightarrow> False)
     | BigInt x \<Rightarrow> (case b of BigInt y \<Rightarrow> x = y | _ \<Rightarrow> False)
     | Symbol x \<Rightarrow> (case b of Symbol y \<Rightarrow> x = y | _ \<Rightarrow> False)
     | Arr r xs \<Rightarrow> (case b of Arr r' ys \<Rightarrow> r = r' | _ \<Rightarrow> False)
     | Obj r c ps \<Rightarrow> (case b of Obj r' c' ps' \<Rightarrow> r = r' | _ \<Rightarrow> False))"

text \<open>\<^verbatim>\<open>Array.isArray(v)\<close>, \<^verbatim>\<open>Number.isNaN(v)\<close> and \<^verbatim>\<open>v instanceof C\<close>, the last by the
  prototype of the built-in constructor \<open>C\<close>.\<close>

fun isArray :: "val \<Rightarrow> bool" where
  "isArray (Arr r xs) = True"
| "isArray v = False"

fun isNaN :: "val \<Rightarrow> bool" where
  "isNaN (Num n) = (n = NaN)"
| "isNaN v = False"

fun instanceof :: "val \<Rightarrow> proto \<Rightarrow> bool" where
  "instanceof (Arr r xs) p = (p = ArrayProto \<or> p = ObjectProto)"
| "instanceof (Obj r callable chain) p = (p \<in> set chain)"
| "instanceof v p = False"

section \<open>The functions of the file\<close>

text \<open>
  \<^verbatim>\<open>src/index.js\<close> holds the program twice: lines 1 to 277, and from line 278 on the
  same program with type annotations and a few more tests. The functions modelled here
  have the same body in both, \<^verbatim>\<open>areEqual\<close> apart, which is modelled in its two versions.
\<close>

subsection \<open>getRealType\<close>

definition getRealType :: "val \<Rightarrow> string" where
  "getRealType v =
    (if typeof v = ''boolean'' then ''boolean''
     else if typeof v = ''string'' then ''string''
     else if typeof v = ''undefined'' then ''undefined''
     else if strictEq v Null then ''null''
     else if strictEq v (Num PosInf) \<or> strictEq v (Num NegInf) then ''Infinity''
     else if isNaN v then ''NaN''
     else if typeof v = ''number'' then ''number''
     else if typeof v = ''bigint'' then ''bigint''
     else if isArray v then ''array''
     else if instanceof v FunctionProto then ''function''
     else if instanceof v DateProto then ''date''
     else if instanceof v RegExpProto then ''regexp''
     else if instanceof v SetProto then ''set''
     else if instanceof v MapProto then ''map''
     else if instanceof v WeakSetProto then ''weakset''
     else if instanceof v WeakMapProto then ''weakmap''
     else if typeof v = ''symbol'' then ''symbol''
     else if instanceof v PromiseProto then ''promise''
     else if typeof v = ''object'' then ''object''
     else ''unknown'')"

text \<open>
  The same chain as an ordered list of rules, the first match winning. The position of a
  rule in the list is the position of its \<^verbatim>\<open>if\<close> in the source.
\<close>

definition rules :: "((val \<Rightarrow> bool) \<times> string) list" where
  "rules =
    [(\<lambda>v. typeof v = ''boolean'', ''boolean''),
     (\<lambda>v. typeof v = ''string'', ''string''),
     (\<lambda>v. typeof v = ''undefined'', ''undefined''),
     (\<lambda>v. strictEq v Null, ''null''),
     (\<lambda>v. strictEq v (Num PosInf) \<or> strictEq v (Num NegInf), ''Infinity''),
     (\<lambda>v. isNaN v, ''NaN''),
     (\<lambda>v. typeof v = ''number'', ''number''),
     (\<lambda>v. typeof v = ''bigint'', ''bigint''),
     (\<lambda>v. isArray v, ''array''),
     (\<lambda>v. instanceof v FunctionProto, ''function''),
     (\<lambda>v. instanceof v DateProto, ''date''),
     (\<lambda>v. instanceof v RegExpProto, ''regexp''),
     (\<lambda>v. instanceof v SetProto, ''set''),
     (\<lambda>v. instanceof v MapProto, ''map''),
     (\<lambda>v. instanceof v WeakSetProto, ''weakset''),
     (\<lambda>v. instanceof v WeakMapProto, ''weakmap''),
     (\<lambda>v. typeof v = ''symbol'', ''symbol''),
     (\<lambda>v. instanceof v PromiseProto, ''promise''),
     (\<lambda>v. typeof v = ''object'', ''object'')]"

fun firstMatch :: "((val \<Rightarrow> bool) \<times> string) list \<Rightarrow> val \<Rightarrow> string" where
  "firstMatch [] v = ''unknown''"
| "firstMatch (r # rs) v = (if fst r v then snd r else firstMatch rs v)"


subsection \<open>getType, getTypesOfItems, getRealTypesOfItems\<close>

definition getType :: "val \<Rightarrow> string" where
  "getType v = typeof v"

definition getTypesOfItems :: "val list \<Rightarrow> string list" where
  "getTypesOfItems arr = map getType arr"


subsection \<open>allItemsHaveTheSameType, everyItemHasAUniqueRealType\<close>

text \<open>
  A \<^verbatim>\<open>Set\<close> of strings is the list of its members in insertion order; \<^verbatim>\<open>add\<close> leaves a
  set that has the member as it is, and \<^verbatim>\<open>size\<close> is the length of the list.
  \<^verbatim>\<open>arr.forEach(f)\<close> is a left fold over the elements.
\<close>

definition setAdd :: "string \<Rightarrow> string list \<Rightarrow> string list" where
  "setAdd x types = (if x \<in> set types then types else types @ [x])"

definition allItemsHaveTheSameType :: "val list \<Rightarrow> bool" where
  "allItemsHaveTheSameType arr =
    (let types = fold (\<lambda>v types. setAdd (typeof v) types) arr []
     in length types = 1)"


subsection \<open>countRealTypes\<close>

text \<open>
  The object \<^verbatim>\<open>map\<close> is the list of its own properties in insertion order, which is the
  order \<^verbatim>\<open>Object.entries\<close> lists string keys in. Reading a missing key gives
  \<^verbatim>\<open>undefined\<close>, here \<open>None\<close>; the keys are tags, none of which is a property that
  \<^verbatim>\<open>{}\<close> inherits. Writing an existing key keeps its place, writing a new one appends.
\<close>

type_synonym counts = "(string \<times> nat) list"

definition objGet :: "counts \<Rightarrow> string \<Rightarrow> nat option" where
  "objGet m k = map_of m k"

fun objSet :: "counts \<Rightarrow> string \<Rightarrow> nat \<Rightarrow> counts" where
  "objSet [] k v = [(k, v)]"
| "objSet (p # ps) k v = (if fst p = k then (k, v) # ps else p # objSet ps k v)"

text \<open>
  One round of the \<^verbatim>\<open>forEach\<close> callback: \<^verbatim>\<open>if (!map[type]) map[type] = 0\<close>, then
  \<^verbatim>\<open>map[type] += 1\<close>. The second read finds the key, which the first statement has set
  if it was missing (lemma \<open>countStep_reads_own\<close>); the \<open>None\<close> branch is never taken.
\<close>

definition countStep :: "val \<Rightarrow> counts \<Rightarrow> counts" where
  "countStep v m =
    (let type = getRealType v;
         m1 = (if objGet m type = None \<or> objGet m type = Some 0 then objSet m type 0 else m)
     in case objGet m1 type of
          Some c \<Rightarrow> objSet m1 type (c + 1)
        | None \<Rightarrow> m1)"


text \<open>
  \<^verbatim>\<open>a[0].localeCompare(b[0])\<close> is the collation of the host. The keys compared are tags,
  words of ASCII letters, and on such words the default collation of the usual engines
  compares letter by letter without regard to case, and only between words that are equal
  up to case puts a lower-case letter before its capital. That is the order modelled:
  a word's key is its letters in lower case, then the positions of its capitals.
\<close>

definition isUpper :: "char \<Rightarrow> bool" where
  "isUpper c = (65 \<le> (of_char c :: nat) \<and> (of_char c :: nat) \<le> 90)"

definition collationKey :: "string \<Rightarrow> nat list \<times> bool list" where
  "collationKey s =
    (map (\<lambda>c. if isUpper c then of_char c + 32 else of_char c) s, map isUpper s)"

definition localeCompare :: "string \<Rightarrow> string \<Rightarrow> int" where
  "localeCompare a b =
    (if collationKey a < collationKey b then - 1
     else if collationKey a = collationKey b then 0
     else 1)"

text \<open>
  \<^verbatim>\<open>Array.prototype.sort\<close> with a comparator: a stable sort, here by insertion. An
  element goes in front of the first element the comparator does not put it after.
\<close>

fun insertBy :: "('a \<Rightarrow> 'a \<Rightarrow> int) \<Rightarrow> 'a \<Rightarrow> 'a list \<Rightarrow> 'a list" where
  "insertBy cmp x [] = [x]"
| "insertBy cmp x (y # ys) = (if cmp x y \<le> 0 then x # y # ys else y # insertBy cmp x ys)"

definition sortBy :: "('a \<Rightarrow> 'a \<Rightarrow> int) \<Rightarrow> 'a list \<Rightarrow> 'a list" where
  "sortBy cmp xs = foldr (insertBy cmp) xs []"

definition countRealTypes :: "val list \<Rightarrow> (string \<times> nat) list" where
  "countRealTypes arr =
    (let m = fold countStep arr []
     in sortBy (\<lambda>a b. localeCompare (fst a) (fst b)) m)"


subsection \<open>areEqual\<close>

text \<open>
  The file holds two versions of \<^verbatim>\<open>areEqual\<close>. The later one (lines 285 to 301) walks two
  arrays index by index and calls itself on the elements; its loop is \<open>areEqualFrom\<close>, on
  the elements from the current index on. A read past the end of \<^verbatim>\<open>b\<close> gives
  \<^verbatim>\<open>undefined\<close>.
\<close>

fun areEqual :: "val \<Rightarrow> val \<Rightarrow> bool"
  and areEqualFrom :: "val list \<Rightarrow> val list \<Rightarrow> bool" where
  "areEqual a b =
    (case a of
       Arr r xs \<Rightarrow>
         (case b of
            Arr r' ys \<Rightarrow> (if length xs \<noteq> length ys then False else areEqualFrom xs ys)
          | _ \<Rightarrow> strictEq a b)
     | _ \<Rightarrow> strictEq a b)"
| "areEqualFrom [] ys = True"
| "areEqualFrom (x # xs) [] = (if \<not> areEqual x Undefined then False else areEqualFrom xs [])"
| "areEqualFrom (x # xs) (y # ys) = (if \<not> areEqual x y then False else areEqualFrom xs ys)"

text \<open>
  The earlier version (lines 9 to 15) compares \<^verbatim>\<open>a.join()\<close> with \<^verbatim>\<open>b.join()\<close>.
  \<^verbatim>\<open>join\<close> turns every element into a string, \<^verbatim>\<open>undefined\<close> and \<^verbatim>\<open>null\<close> into the
  empty one, and puts commas between them. The conversion to a string is modelled for the
  primitives and for arrays: a symbol raises \<^verbatim>\<open>TypeError\<close>; the decimal of an integer
  below \<open>10\<^sup>2\<^sup>1\<close> in magnitude is written out; the digits of any other finite number
  and the \<^verbatim>\<open>toString\<close> method of an object are left out (\<open>NotModelled\<close>).
\<close>

datatype error = TypeError | NotModelled

definition digit :: "nat \<Rightarrow> char" where
  "digit d = ''0123456789'' ! d"

fun showNat :: "nat \<Rightarrow> string" where
  "showNat n = (if n < 10 then [digit n] else showNat (n div 10) @ [digit (n mod 10)])"

declare showNat.simps [simp del]

definition showInt :: "int \<Rightarrow> string" where
  "showInt i = (if i < 0 then CHR ''-'' # showNat (nat (- i)) else showNat (nat i))"

fun numberToString :: "number \<Rightarrow> error + string" where
  "numberToString NaN = Inr ''NaN''"
| "numberToString PosInf = Inr ''Infinity''"
| "numberToString NegInf = Inr ''-Infinity''"
| "numberToString (Finite q) =
    (if of_int \<lfloor>q\<rfloor> = q \<and> \<bar>q\<bar> < 10 ^ 21 then Inr (showInt \<lfloor>q\<rfloor>) else Inl NotModelled)"

fun toStr :: "val \<Rightarrow> error + string"
  and join :: "val list \<Rightarrow> error + string" where
  "toStr Undefined = Inr ''undefined''"
| "toStr Null = Inr ''null''"
| "toStr (Bool b) = Inr (if b then ''true'' else ''false'')"
| "toStr (Num n) = numberToString n"
| "toStr (Str s) = Inr s"
| "toStr (BigInt i) = Inr (showInt i)"
| "toStr (Symbol i) = Inl TypeError"
| "toStr (Arr r xs) = join xs"
| "toStr (Obj r callable chain) = Inl NotModelled"
| "join [] = Inr []"
| "join (x # xs) =
    (case (if x = Undefined \<or> x = Null then Inr [] else toStr x) of
       Inl e \<Rightarrow> Inl e
     | Inr s \<Rightarrow>
         (if xs = [] then Inr s
          else case join xs of Inl e \<Rightarrow> Inl e | Inr t \<Rightarrow> Inr (s @ '','' @ t)))"

definition areEqual_join :: "val \<Rightarrow> val \<Rightarrow> error + bool" where
  "areEqual_join a b =
    (case a of
       Arr r xs \<Rightarrow>
         (case b of
            Arr r' ys \<Rightarrow>
              (case join xs of
                 Inl e \<Rightarrow> Inl e
               | Inr s \<Rightarrow> (case join ys of Inl e \<Rightarrow> Inl e | Inr t \<Rightarrow> Inr (s = t)))
          | _ \<Rightarrow> Inr (strictEq a b))
     | _ \<Rightarrow> Inr (strictEq a b))"

subsection \<open>Values of the tests\<close>


text \<open>
  The wrapper object of a primitive, as \<^verbatim>\<open>new String('12')\<close> of line 460 makes one:
  an object that is not callable, with the prototype of its constructor and
  \<^verbatim>\<open>Object.prototype\<close> on its chain, at the reference \<open>r\<close>. \<^verbatim>\<open>undefined\<close> and
  \<^verbatim>\<open>null\<close> have no wrapper, and an object is not wrapped.
\<close>

fun wrapper :: "nat \<Rightarrow> val \<Rightarrow> val option" where
  "wrapper r (Bool b) = Some (Obj r False [BooleanProto, ObjectProto])"
| "wrapper r (Num n) = Some (Obj r False [NumberProto, ObjectProto])"
| "wrapper r (Str s) = Some (Obj r False [StringProto, ObjectProto])"
| "wrapper r (BigInt i) = Some (Obj r False [BigIntProto, ObjectProto])"
| "wrapper r (Symbol i) = Some (Obj r False [SymbolProto, ObjectProto])"
| "wrapper r v = None"


section \<open>Facts about the runtime model and the classifier\<close>

lemma strictEq_Null [simp]: "strictEq v Null = (v = Null)"
  by (cases v) (simp_all add: strictEq_def)

lemma strictEq_PosInf [simp]: "strictEq v (Num PosInf) = (v = Num PosInf)"
  by (cases v) (auto simp: strictEq_def)

lemma strictEq_NegInf [simp]: "strictEq v (Num NegInf) = (v = Num NegInf)"
  by (cases v) (auto simp: strictEq_def)

lemma strictEq_Undefined [simp]: "strictEq v Undefined = (v = Undefined)"
  by (cases v) (simp_all add: strictEq_def)


lemma strictEq_same: "strictEq a a = (a \<noteq> Num NaN)"
  by (cases a) (auto simp: strictEq_def)

lemma getRealType_prims [simp]:
  "getRealType (Bool b) = ''boolean''"
  "getRealType (Str s) = ''string''"
  "getRealType Undefined = ''undefined''"
  "getRealType Null = ''null''"
  "getRealType (BigInt i) = ''bigint''"
  "getRealType (Symbol k) = ''symbol''"
  "getRealType (Arr r xs) = ''array''"
  by (simp_all add: getRealType_def)

lemma getRealType_Num [simp]:
  "getRealType (Num NaN) = ''NaN''"
  "getRealType (Num PosInf) = ''Infinity''"
  "getRealType (Num NegInf) = ''Infinity''"
  "getRealType (Num (Finite q)) = ''number''"
  by (simp_all add: getRealType_def)

lemma getRealType_Obj:
  "getRealType (Obj r callable chain) =
    (if FunctionProto \<in> set chain then ''function''
     else if DateProto \<in> set chain then ''date''
     else if RegExpProto \<in> set chain then ''regexp''
     else if SetProto \<in> set chain then ''set''
     else if MapProto \<in> set chain then ''map''
     else if WeakSetProto \<in> set chain then ''weakset''
     else if WeakMapProto \<in> set chain then ''weakmap''
     else if PromiseProto \<in> set chain then ''promise''
     else if callable then ''unknown'' else ''object'')"
  by (simp add: getRealType_def)

lemma firstMatch_rules: "getRealType v = firstMatch rules v"
  by (simp add: getRealType_def rules_def)




section \<open>Facts about the sets of types\<close>


lemma fold_setAdd_distinct:
  "distinct acc \<Longrightarrow> distinct (fold (\<lambda>v types. setAdd (f v) types) arr acc)"
  by (induction arr arbitrary: acc) (auto simp: setAdd_def)

lemma fold_setAdd_set:
  "set (fold (\<lambda>v types. setAdd (f v) types) arr acc) = set acc \<union> f ` set arr"
  by (induction arr arbitrary: acc) (auto simp: setAdd_def)

lemma size_types: "length (fold (\<lambda>v types. setAdd (f v) types) arr []) = card (f ` set arr)"
proof -
  have "distinct (fold (\<lambda>v types. setAdd (f v) types) arr [])"
    by (rule fold_setAdd_distinct) simp
  then have "length (fold (\<lambda>v types. setAdd (f v) types) arr [])
      = card (set (fold (\<lambda>v types. setAdd (f v) types) arr []))"
    by (simp add: distinct_card)
  then show ?thesis by (simp add: fold_setAdd_set)
qed


lemma allSame_iff:
  "allItemsHaveTheSameType arr = (arr \<noteq> [] \<and> (\<forall>v \<in> set arr. typeof v = typeof (hd arr)))"
proof -
  have "allItemsHaveTheSameType arr = (card (typeof ` set arr) = 1)"
    by (simp add: allItemsHaveTheSameType_def size_types)
  also have "\<dots> = (arr \<noteq> [] \<and> (\<forall>v \<in> set arr. typeof v = typeof (hd arr)))"
  proof (cases arr)
    case Nil
    then show ?thesis by simp
  next
    case (Cons x xs)
    have "(card (typeof ` set (x # xs)) = 1) = (typeof ` set (x # xs) = {typeof x})"
    proof
      assume "card (typeof ` set (x # xs)) = 1"
      then obtain t where t: "typeof ` set (x # xs) = {t}" by (auto simp: card_1_singleton_iff)
      then have "typeof x \<in> {t}" by auto
      with t show "typeof ` set (x # xs) = {typeof x}" by simp
    next
      assume a: "typeof ` set (x # xs) = {typeof x}"
      show "card (typeof ` set (x # xs)) = 1" unfolding a by simp
    qed
    also have "\<dots> = (\<forall>v \<in> set (x # xs). typeof v = typeof x)" by auto
    finally show ?thesis using Cons by simp
  qed
  finally show ?thesis .
qed

section \<open>Facts about counting and sorting\<close>

lemma objGet_objSet: "objGet (objSet m k v) k' = (if k' = k then Some v else objGet m k')"
  by (induction m) (auto simp: objGet_def)



lemma objGet_None: "(objGet m k = None) = (k \<notin> fst ` set m)"
  by (simp add: objGet_def map_of_eq_None_iff)


lemma countStep_reads_own:
  "objGet (if objGet m k = None \<or> objGet m k = Some 0 then objSet m k 0 else m) k \<noteq> None"
  by (auto simp: objGet_objSet)










lemma localeCompare_le: "(localeCompare a b \<le> 0) = (collationKey a \<le> collationKey b)"
  by (auto simp: localeCompare_def)


lemma insertBy_insort:
  "insertBy (\<lambda>a b. localeCompare (fst a) (fst b)) x ys = insort_key (\<lambda>e. collationKey (fst e)) x ys"
  by (induction ys) (simp_all add: localeCompare_le)

lemma sortBy_sort_key:
  "sortBy (\<lambda>a b. localeCompare (fst a) (fst b)) xs = sort_key (\<lambda>e. collationKey (fst e)) xs"
  by (induction xs) (simp_all add: sortBy_def sort_key_def insertBy_insort)





lemma countRealTypes_sort:
  "countRealTypes arr = sort_key (\<lambda>e. collationKey (fst e)) (fold countStep arr [])"
  by (simp add: countRealTypes_def sortBy_sort_key)


lemma countRealTypes_length: "length (countRealTypes arr) = length (fold countStep arr [])"
  by (simp add: countRealTypes_sort)









section \<open>Facts about the two versions of areEqual\<close>

lemma areEqual_Arr:
  "areEqual (Arr r xs) (Arr r' ys) = (length xs = length ys \<and> areEqualFrom xs ys)"
  by simp

lemma areEqual_other: "\<not> (isArray a \<and> isArray b) \<Longrightarrow> areEqual a b = strictEq a b"
  by (cases a; cases b) simp_all

declare areEqual.simps [simp del]

lemma areEqualFrom_all2:
  "length xs = length ys \<Longrightarrow> areEqualFrom xs ys = list_all2 areEqual xs ys"
  by (induction xs ys rule: list_induct2) simp_all

lemma areEqual_Arr_all2: "areEqual (Arr r xs) (Arr r' ys) = list_all2 areEqual xs ys"
  using areEqualFrom_all2 [of xs ys] by (auto simp: areEqual_Arr dest: list_all2_lengthD)

lemma areEqual_arrays:
  "areEqual (Arr r xs) (Arr r' ys)
    = (length xs = length ys \<and> (\<forall>i < length xs. areEqual (xs ! i) (ys ! i)))"
  by (simp add: areEqual_Arr_all2 list_all2_conv_all_nth)




text \<open>The later version on the arrays of the tests (lines 584 to 587).\<close>

lemma areEqual_examples:
  "areEqual (Arr 0 [Num (Finite 11), Num (Finite 12)]) (Arr 1 [Num (Finite 11), Num (Finite 12)])"
  "\<not> areEqual (Arr 0 [Num (Finite 11), Num (Finite 12)])
      (Arr 1 [Num (Finite 11), Num (Finite 12), Num (Finite 13)])"
  "\<not> areEqual (Arr 0 [Num (Finite 11), Num (Finite 12), Num (Finite 13)])
      (Arr 1 [Num (Finite 11), Num (Finite 12)])"
  "\<not> areEqual (Arr 0 [Num (Finite 11), Num (Finite 12)]) (Arr 1 [Str ''11'', Str ''12''])"
  by (simp_all add: areEqual_Arr areEqual_other strictEq_def)

lemma areEqual_join_other:
  "\<not> (isArray a \<and> isArray b) \<Longrightarrow> areEqual_join a b = Inr (strictEq a b)"
  by (cases a; cases b) (simp_all add: areEqual_join_def)

lemma areEqual_join_Arr:
  "areEqual_join (Arr r xs) (Arr r' ys) =
    (case join xs of
       Inl e \<Rightarrow> Inl e
     | Inr s \<Rightarrow> (case join ys of Inl e \<Rightarrow> Inl e | Inr t \<Rightarrow> Inr (s = t)))"
  by (simp add: areEqual_join_def)



section \<open>The claims\<close>

text \<open>
  Claim C1. For two arrays \<^verbatim>\<open>areEqual\<close> is to return true exactly when they have the same
  length and equal elements index by index, with no coercion between numbers and strings:
  \<^verbatim>\<open>areEqual([11, 12], ['11', '12'])\<close> is false. The later version does so
  (\<open>areEqual_arrays\<close>, \<open>areEqual_examples\<close>). The version of lines 9 to 15 compares the
  joined strings, and on this input both are \<^verbatim>\<open>'11,12'\<close>: it returns true where the
  later version, and the test of line 587, say false.
\<close>

theorem areEqual_join_coerces:
  "areEqual_join (Arr 0 [Num (Finite 11), Num (Finite 12)]) (Arr 1 [Str ''11'', Str ''12''])
     = Inr True
   \<and> join [Num (Finite 11), Num (Finite 12)] = Inr ''11,12''
   \<and> join [Str ''11'', Str ''12''] = Inr ''11,12''
   \<and> areEqual (Arr 0 [Num (Finite 11), Num (Finite 12)]) (Arr 1 [Str ''11'', Str ''12''])
     = False"
  by (simp add: areEqual_join_Arr showInt_def showNat.simps digit_def areEqual_Arr
      areEqual_other strictEq_def)

text \<open>
  Claim C2. \<^verbatim>\<open>allItemsHaveTheSameType\<close> is to return true on the empty array. The code
  returns \<^verbatim>\<open>types.size === 1\<close>, and the set of an empty array has size 0: the result is
  false. On every other array the result is as claimed (\<open>allSame_iff\<close>).
\<close>

theorem allItemsHaveTheSameType_empty:
  "allItemsHaveTheSameType [] = False"
  by (simp add: allItemsHaveTheSameType_def)






text \<open>
  Claim C5. For a number \<open>v\<close>, \<^verbatim>\<open>getRealType\<close> returns \<^verbatim>\<open>'NaN'\<close> exactly when
  \<^verbatim>\<open>v !== v\<close>, \<^verbatim>\<open>'Infinity'\<close> exactly when \<open>v\<close> is one of the two infinities, and
  \<^verbatim>\<open>'number'\<close> otherwise. Of the three checks the one for the infinities stands first,
  the one for \<open>NaN\<close> second, the one for any number last: they are the rules 5, 6 and 7
  of the chain.
\<close>

theorem getRealType_numeric:
  "(getRealType (Num n) = ''NaN'') = (\<not> strictEq (Num n) (Num n))
   \<and> (getRealType (Num n) = ''Infinity'') = (n = PosInf \<or> n = NegInf)
   \<and> (getRealType (Num n) = ''number'')
       = (strictEq (Num n) (Num n) \<and> n \<noteq> PosInf \<and> n \<noteq> NegInf)
   \<and> getRealType (Num n) \<in> {''NaN'', ''Infinity'', ''number''}
   \<and> getRealType (Num n) = firstMatch rules (Num n)
   \<and> map snd (take 3 (drop 4 rules)) = [''Infinity'', ''NaN'', ''number'']"
proof -
  have "map snd (take 3 (drop 4 rules)) = [''Infinity'', ''NaN'', ''number'']"
    by (simp add: rules_def)
  then show ?thesis
    by (cases n) (simp_all add: strictEq_same firstMatch_rules [symmetric])
qed

theorem getRealType_numeric_witness:
  "getRealType (Num NaN) = ''NaN'' \<and> \<not> strictEq (Num NaN) (Num NaN)
   \<and> getRealType (Num NegInf) = ''Infinity''
   \<and> getRealType (Num (Finite 123)) = ''number''
   \<and> strictEq (Num (Finite 123)) (Num (Finite 123))"
  using getRealType_numeric [of NaN] getRealType_numeric [of NegInf]
    getRealType_numeric [of "Finite 123"]
  by simp







text \<open>
  Claim C9. \<^verbatim>\<open>areEqual(NaN, NaN)\<close> is false, in both versions: unless both operands are
  arrays \<^verbatim>\<open>areEqual\<close> is \<^verbatim>\<open>a === b\<close>, and \<open>NaN\<close> is not strictly equal to itself. So
  \<^verbatim>\<open>areEqual\<close> is not reflexive.
\<close>

theorem areEqual_NaN:
  "areEqual (Num NaN) (Num NaN) = False
   \<and> areEqual_join (Num NaN) (Num NaN) = Inr False
   \<and> (\<not> (isArray a \<and> isArray b) \<longrightarrow>
        areEqual a b = strictEq a b \<and> areEqual_join a b = Inr (strictEq a b))
   \<and> (\<exists>v. areEqual v v = False)"
proof -
  have n: "areEqual (Num NaN) (Num NaN) = False"
    by (simp add: areEqual_other strictEq_def)
  then have "\<exists>v. areEqual v v = False"
    by blast
  with n areEqual_join_other [of "Num NaN" "Num NaN"] areEqual_join_other [of a b]
  show ?thesis
    by (simp add: areEqual_other strictEq_def)
qed

theorem areEqual_NaN_witness:
  "\<not> (isArray (Num NaN) \<and> isArray (Num NaN))
   \<and> areEqual (Num NaN) (Num NaN) = strictEq (Num NaN) (Num NaN)
   \<and> areEqual_join (Num NaN) (Num NaN) = Inr (strictEq (Num NaN) (Num NaN))
   \<and> strictEq (Num NaN) (Num NaN) = False"
  using areEqual_NaN [of "Num NaN" "Num NaN"] by (simp add: strictEq_def)

text \<open>
  Claim C10. For the wrapper object of a boolean, a number, a string, a bigint or a symbol
  \<^verbatim>\<open>getRealType\<close> returns \<^verbatim>\<open>'object'\<close>, which is not the tag of the primitive: none of
  the eighteen rules in front of the last one matches the wrapper, and the last one,
  \<^verbatim>\<open>typeof value === 'object'\<close>, does.
\<close>

theorem getRealType_wrapper:
  "wrapper r p = Some w \<Longrightarrow>
     getRealType w = ''object''
     \<and> getRealType w \<noteq> getRealType p
     \<and> typeof w \<noteq> typeof p
     \<and> list_all (\<lambda>rule. \<not> fst rule w) (take 18 rules)
     \<and> rules ! 18 = (\<lambda>v. typeof v = ''object'', ''object'')
     \<and> fst (rules ! 18) w"
proof -
  assume w: "wrapper r p = Some w"
  have last: "rules ! 18 = (\<lambda>v. typeof v = ''object'', ''object'')"
    by (simp add: rules_def)
  from w show ?thesis
  proof (cases p)
    case (Num n)
    with w last show ?thesis
      by (cases n) (auto simp: getRealType_Obj rules_def strictEq_def)
  qed (use last in \<open>auto simp: getRealType_Obj rules_def strictEq_def\<close>)
qed

text \<open>The wrapper \<^verbatim>\<open>new String('12')\<close> of line 460.\<close>

theorem getRealType_wrapper_witness:
  "wrapper 0 (Str ''12'') = Some (Obj 0 False [StringProto, ObjectProto])
   \<and> getRealType (Obj 0 False [StringProto, ObjectProto]) = ''object''
   \<and> getRealType (Str ''12'') = ''string''"
  using getRealType_wrapper [of 0 "Str ''12''" "Obj 0 False [StringProto, ObjectProto]"]
  by simp

end
